theory Spec2Isabelle
  imports Complex_Main "HOL-Library.Char_ord" "HOL-Library.List_Lexorder"
    "HOL-Library.Product_Lexorder"
begin

section \<open>Temperature correction model: the script as functions\<close>

text \<open>
  The script \<^verbatim>\<open>TempCorrModel_03.04.2025_02_Github.py\<close> runs top to bottom: it
  reads one measurement table per case folder, replaces T1 rows by corrected ones,
  attaches a temperature per metric, concatenates everything, and fits one regression
  per (metric, region). Each stage is a function here; the tables are lists of records
  in row order.

  Numbers. A float64 is modelled as an exact real number or one of the three special
  values \<open>nan\<close>, \<open>inf\<close>, \<open>-inf\<close>. Arithmetic on finite values is exact (rounding and
  signed zeros are not modelled); the special values follow the IEEE rules that numpy
  applies to float64 scalars, where a division by zero gives \<open>inf\<close> or \<open>nan\<close> and does
  not raise.
\<close>

subsection \<open>float64 values\<close>

datatype fval = Fin real | NaN | PInf | NInf

fun isnull :: "fval \<Rightarrow> bool" where
  "isnull NaN = True"
| "isnull _ = False"

fun isfinite :: "fval \<Rightarrow> bool" where
  "isfinite (Fin _) = True"
| "isfinite _ = False"

fun fin_of :: "fval \<Rightarrow> real" where
  "fin_of (Fin a) = a"
| "fin_of _ = 0"

fun fadd :: "fval \<Rightarrow> fval \<Rightarrow> fval" where
  "fadd (Fin a) (Fin b) = Fin (a + b)"
| "fadd NaN _ = NaN"
| "fadd _ NaN = NaN"
| "fadd PInf NInf = NaN"
| "fadd NInf PInf = NaN"
| "fadd PInf _ = PInf"
| "fadd _ PInf = PInf"
| "fadd NInf _ = NInf"
| "fadd _ NInf = NInf"

fun fneg :: "fval \<Rightarrow> fval" where
  "fneg (Fin a) = Fin (- a)"
| "fneg NaN = NaN"
| "fneg PInf = NInf"
| "fneg NInf = PInf"

definition fsub :: "fval \<Rightarrow> fval \<Rightarrow> fval" where
  "fsub a b = fadd a (fneg b)"

text \<open>An infinity with the sign of a nonzero real.\<close>

definition inf_sign :: "real \<Rightarrow> fval" where
  "inf_sign a = (if 0 < a then PInf else NInf)"

fun fmul :: "fval \<Rightarrow> fval \<Rightarrow> fval" where
  "fmul (Fin a) (Fin b) = Fin (a * b)"
| "fmul NaN _ = NaN"
| "fmul _ NaN = NaN"
| "fmul (Fin a) PInf = (if a = 0 then NaN else inf_sign a)"
| "fmul (Fin a) NInf = (if a = 0 then NaN else inf_sign (- a))"
| "fmul PInf (Fin b) = (if b = 0 then NaN else inf_sign b)"
| "fmul NInf (Fin b) = (if b = 0 then NaN else inf_sign (- b))"
| "fmul PInf PInf = PInf"
| "fmul NInf NInf = PInf"
| "fmul PInf NInf = NInf"
| "fmul NInf PInf = NInf"

text \<open>
  Division of float64 scalars: \<open>0/0\<close> is \<open>nan\<close>, a nonzero finite number over zero is
  an infinity, a finite number over an infinity is zero, and \<open>inf/inf\<close> is \<open>nan\<close>.
\<close>

fun fdiv :: "fval \<Rightarrow> fval \<Rightarrow> fval" where
  "fdiv (Fin a) (Fin b) =
     (if b = 0 then (if a = 0 then NaN else inf_sign a) else Fin (a / b))"
| "fdiv NaN _ = NaN"
| "fdiv _ NaN = NaN"
| "fdiv (Fin a) PInf = Fin 0"
| "fdiv (Fin a) NInf = Fin 0"
| "fdiv PInf (Fin b) = (if 0 \<le> b then PInf else NInf)"
| "fdiv NInf (Fin b) = (if 0 \<le> b then NInf else PInf)"
| "fdiv PInf PInf = NaN"
| "fdiv PInf NInf = NaN"
| "fdiv NInf PInf = NaN"
| "fdiv NInf NInf = NaN"

fun fsqrt :: "fval \<Rightarrow> fval" where
  "fsqrt (Fin a) = (if a < 0 then NaN else Fin (sqrt a))"
| "fsqrt NaN = NaN"
| "fsqrt PInf = PInf"
| "fsqrt NInf = NaN"

text \<open>\<^verbatim>\<open>v ** 2\<close>\<close>

definition fsquare :: "fval \<Rightarrow> fval" where
  "fsquare a = fmul a a"

text \<open>\<^verbatim>\<open>np.sum\<close> of a float64 column.\<close>

definition fsum :: "fval list \<Rightarrow> fval" where
  "fsum vs = foldl fadd (Fin 0) vs"

subsection \<open>Tables\<close>

text \<open>
  A measurement row as read from a case file, after
  \<^verbatim>\<open>pd.to_numeric(df['value'], errors='coerce')\<close>: a key cell is a string or blank
  (\<open>None\<close>), the value is a float64, \<open>nan\<close> where the text was blank or not a number.
\<close>

record row =
  r_case :: "string option"
  r_metric :: "string option"
  r_region :: "string option"
  r_value :: fval

text \<open>
  A row of the aggregated table: the measurement row with the column
  \<^verbatim>\<open>temperature\<close> added. A spreadsheet cell holds a finite number or is blank.
\<close>

record trow = row +
  temperature :: "real option"

record temp_rec =
  t_case :: string
  temp_DTI :: "real option"
  temp_T1 :: "real option"
  temp_T2 :: "real option"
  temp_T2s :: "real option"

text \<open>
  A case folder: its name and the two files under \<^verbatim>\<open>00_OUTPUT\<close>, \<open>None\<close> when
  \<^verbatim>\<open>os.path.exists\<close> is false.
\<close>

record case_folder =
  case_name :: string
  file_main :: "row list option"
  file_t1 :: "row list option"

subsection \<open>Settings\<close>

definition metrics :: "string list" where
  "metrics = [''FA'', ''MD'', ''T1'', ''T2'', ''T2s'']"

definition region_exclude :: "string list" where
  "region_exclude = [''Accumbens'']"

definition structure_groups :: "(string \<times> string list) list" where
  "structure_groups =
     [(''Basal Ganglia'', [''Caudate'', ''Putamen'', ''Pallidum'']),
      (''Limbic System'', [''Hippocampus'', ''Amygdala'']),
      (''Relay Centers'', [''Thalamus'', ''Brainstem''])]"

text \<open>
  \<^verbatim>\<open>temp_map[metric]\<close>; the script looks up the five metrics only, so the lookup never
  fails.
\<close>

definition temp_map :: "string \<Rightarrow> (temp_rec \<Rightarrow> real option)" where
  "temp_map metric =
     (if metric = ''FA'' then temp_DTI
      else if metric = ''MD'' then temp_DTI
      else if metric = ''T1'' then temp_T1
      else if metric = ''T2'' then temp_T2
      else temp_T2s)"

subsection \<open>Ingestion\<close>

text \<open>\<^verbatim>\<open>df[~df['region'].isin(region_exclude)]\<close>; a blank region is in no list.\<close>

definition exclude_regions :: "row list \<Rightarrow> row list" where
  "exclude_regions df =
     filter (\<lambda>r. case r_region r of None \<Rightarrow> True | Some g \<Rightarrow> g \<notin> set region_exclude) df"

definition key_of :: "row \<Rightarrow> (string \<times> string \<times> string) option" where
  "key_of r =
     (case r_case r of None \<Rightarrow> None | Some c \<Rightarrow>
      (case r_metric r of None \<Rightarrow> None | Some m \<Rightarrow>
       (case r_region r of None \<Rightarrow> None | Some g \<Rightarrow> Some (c, m, g))))"

text \<open>
  pandas' \<^verbatim>\<open>GroupBy.first()\<close> takes, per column, the first entry of the group that is
  not null; a group whose values are all null gets \<open>nan\<close>.
\<close>

definition first_notnull :: "fval list \<Rightarrow> fval" where
  "first_notnull vs = (case filter (\<lambda>v. \<not> isnull v) vs of [] \<Rightarrow> NaN | v # _ \<Rightarrow> v)"

text \<open>
  \<^verbatim>\<open>df.groupby(['case', 'metric', 'region']).first().reset_index()\<close>: rows with a blank
  key cell belong to no group, the groups come out sorted by key, one row each.
\<close>

definition group_keys :: "row list \<Rightarrow> (string \<times> string \<times> string) list" where
  "group_keys df = sort (remdups (List.map_filter key_of df))"

definition group_row :: "row list \<Rightarrow> string \<times> string \<times> string \<Rightarrow> row" where
  "group_row df k =
     (case k of (c, m, g) \<Rightarrow>
        \<lparr>r_case = Some c, r_metric = Some m, r_region = Some g,
         r_value = first_notnull (map r_value (filter (\<lambda>r. key_of r = Some k) df))\<rparr>)"

definition group_first :: "row list \<Rightarrow> row list" where
  "group_first df = map (group_row df) (group_keys df)"

text \<open>\<^verbatim>\<open>subset['temperature'] = temp_value[0]\<close>\<close>

definition attach :: "real option \<Rightarrow> row \<Rightarrow> trow" where
  "attach t r =
     \<lparr>r_case = r_case r, r_metric = r_metric r, r_region = r_region r,
      r_value = r_value r, temperature = t\<rparr>"

text \<open>
  The T1 replacement of one case: the main table after exclusion and grouping, with its
  T1 rows replaced by those of the corrected file when that file has a row.
\<close>

definition replace_t1 :: "row list \<Rightarrow> row list \<Rightarrow> row list" where
  "replace_t1 main df_t1 =
     (let df_main = group_first (exclude_regions main)
      in if df_t1 \<noteq> [] then
           filter (\<lambda>r. r_metric r \<noteq> Some ''T1'') df_main
           @ group_first (filter (\<lambda>r. r_metric r = Some ''T1'') (exclude_regions df_t1))
         else df_main)"

text \<open>
  The body of the loop over the metrics: the subset of one metric with the case's
  temperature for it. The result is the list of tables appended to \<^verbatim>\<open>all_data\<close>
  (none or one).
\<close>

definition metric_subset :: "row list \<Rightarrow> temp_rec list \<Rightarrow> string \<Rightarrow> trow list list" where
  "metric_subset df_main temp_row metric =
     (let subset = filter (\<lambda>r. r_metric r = Some metric) df_main;
          temp_col = temp_map metric;
          temp_value = map temp_col temp_row
      in if length temp_value = 0 then []
         else [map (attach (hd temp_value)) subset])"

text \<open>The body of the loop over the case folders: the tables one case appends.\<close>

definition process_case :: "temp_rec list \<Rightarrow> case_folder \<Rightarrow> trow list list" where
  "process_case temp_df cf =
     (case file_main cf of
        None \<Rightarrow> []
      | Some main \<Rightarrow>
          (let df_t1 = (case file_t1 cf of Some t \<Rightarrow> t | None \<Rightarrow> []);
               df_main = replace_t1 main df_t1;
               temp_row = filter (\<lambda>t. t_case t = case_name cf) temp_df
           in if temp_row = [] then []
              else concat (map (metric_subset df_main temp_row) metrics)))"

definition all_data :: "temp_rec list \<Rightarrow> case_folder list \<Rightarrow> trow list list" where
  "all_data temp_df case_folders = concat (map (process_case temp_df) case_folders)"

datatype error =
    NoValidData
  | IdenticalX

text \<open>
  \<^verbatim>\<open>if not all_data: raise ValueError(...)\<close>, then \<^verbatim>\<open>pd.concat(all_data)\<close>.
\<close>

definition ingest :: "temp_rec list \<Rightarrow> case_folder list \<Rightarrow> error + trow list" where
  "ingest temp_df case_folders =
     (let ad = all_data temp_df case_folders
      in if ad = [] then Inl NoValidData else Inr (concat ad))"

subsection \<open>Library functions of the statistical fit\<close>

text \<open>
  The script calls \<^verbatim>\<open>scipy.stats.pearsonr\<close>, \<^verbatim>\<open>scipy.stats.linregress\<close> and
  \<^verbatim>\<open>scipy.stats.t.ppf\<close>. The first two are modelled by what their code computes, in
  exact arithmetic, for the results the script reads. The p-value of \<^verbatim>\<open>pearsonr\<close> and
  the quantile function of Student's t distribution are parameters.
\<close>

record stats_lib =
  pearsonr_p :: "real list \<Rightarrow> real list \<Rightarrow> fval"
  t_ppf :: "real \<Rightarrow> int \<Rightarrow> fval"

text \<open>\<^verbatim>\<open>np.mean\<close> of a column of finite numbers with at least one entry.\<close>

definition mean :: "real list \<Rightarrow> real" where
  "mean xs = sum_list xs / real (length xs)"

text \<open>\<^verbatim>\<open>(x == x[0]).all()\<close>\<close>

definition constant_input :: "real list \<Rightarrow> bool" where
  "constant_input xs = list_all (\<lambda>a. a = hd xs) xs"

text \<open>\<^verbatim>\<open>max(min(r, 1.0), -1.0)\<close>\<close>

definition clip :: "real \<Rightarrow> real" where
  "clip r = max (min r 1) (- 1)"

text \<open>
  \<^verbatim>\<open>pearsonr(x, y)[0]\<close> for two columns of the same length \<open>n \<ge> 2\<close>: \<open>nan\<close> (with a
  warning) when a column is constant, otherwise the dot product of the two centred
  columns, each divided by its Euclidean norm, clipped to \<open>[-1, 1]\<close>.
\<close>

definition pearsonr_r :: "real list \<Rightarrow> real list \<Rightarrow> fval" where
  "pearsonr_r x y =
     (if constant_input x \<or> constant_input y then NaN
      else
        (let xmean = mean x;
             ymean = mean y;
             xm = map (\<lambda>a. a - xmean) x;
             ym = map (\<lambda>b. b - ymean) y;
             normxm = sqrt (sum_list (map (\<lambda>a. a\<^sup>2) xm));
             normym = sqrt (sum_list (map (\<lambda>b. b\<^sup>2) ym))
         in Fin (clip (sum_list (map2 (\<lambda>a b. (a / normxm) * (b / normym)) xm ym)))))"

record linregress_result =
  lr_slope :: real
  lr_intercept :: real
  lr_rvalue :: real

text \<open>
  \<^verbatim>\<open>linregress(x, y)\<close> for two columns of the same length \<open>n \<ge> 2\<close>. It raises
  \<^verbatim>\<open>ValueError("Cannot calculate a linear regression if all x values are identical")\<close>
  when \<^verbatim>\<open>np.amax(x) == np.amin(x) and len(x) > 1\<close>. Otherwise, with the entries of
  \<^verbatim>\<open>np.cov(x, y, bias=1)\<close> (the means of the products of deviations), the slope is
  \<open>ssxym / ssxm\<close>, the intercept \<open>ymean - slope * xmean\<close>, and r is \<open>0\<close> when \<open>ssxm\<close> or
  \<open>ssym\<close> is zero and \<open>ssxym / sqrt (ssxm * ssym)\<close>, clipped, otherwise (the value
  for a zero \<open>ssym\<close> differs between versions of the library; the script fits only
  series with two distinct y-values). Its p-value and standard error are results the
  script never reads.
\<close>

definition linregress :: "real list \<Rightarrow> real list \<Rightarrow> error + linregress_result" where
  "linregress x y =
     (if Max (set x) = Min (set x) \<and> 1 < length x then Inl IdenticalX
      else
        (let xmean = mean x;
             ymean = mean y;
             ssxm = mean (map (\<lambda>a. (a - xmean) * (a - xmean)) x);
             ssxym = mean (map2 (\<lambda>a b. (a - xmean) * (b - ymean)) x y);
             ssym = mean (map (\<lambda>b. (b - ymean) * (b - ymean)) y);
             r = (if ssxm = 0 \<or> ssym = 0 then 0 else clip (ssxym / sqrt (ssxm * ssym)));
             slope = ssxym / ssxm;
             intercept = ymean - slope * xmean
         in Inr \<lparr>lr_slope = slope, lr_intercept = intercept, lr_rvalue = r\<rparr>))"

subsection \<open>Confidence intervals\<close>

text \<open>
  Lines 165 to 175 of the script. The columns \<open>x\<close> and \<open>y\<close> hold finite numbers here;
  the divisions are divisions of float64 scalars. The slope and the intercept are
  whatever the regression returned.
\<close>

definition dof :: "real list \<Rightarrow> int" where
  "dof x = int (length x) - 2"

definition se_y :: "real list \<Rightarrow> real list \<Rightarrow> fval \<Rightarrow> fval \<Rightarrow> fval" where
  "se_y x y slope intercept =
     fsqrt (fdiv
       (fsum (map2 (\<lambda>a b. fsquare (fsub (Fin b) (fadd (fmul slope (Fin a)) intercept))) x y))
       (Fin (of_int (dof x))))"

definition s_xx :: "real list \<Rightarrow> fval" where
  "s_xx x = fsum (map (\<lambda>a. fsquare (fsub (Fin a) (Fin (mean x)))) x)"

definition se_slope :: "real list \<Rightarrow> real list \<Rightarrow> fval \<Rightarrow> fval \<Rightarrow> fval" where
  "se_slope x y slope intercept = fdiv (se_y x y slope intercept) (fsqrt (s_xx x))"

definition se_intercept :: "real list \<Rightarrow> real list \<Rightarrow> fval \<Rightarrow> fval \<Rightarrow> fval" where
  "se_intercept x y slope intercept =
     fmul (se_y x y slope intercept)
       (fsqrt (fadd (Fin (1 / real (length x))) (fdiv (fsquare (Fin (mean x))) (s_xx x))))"

text \<open>The numbers of one fit, before formatting.\<close>

record fit =
  fit_r :: fval
  fit_p :: fval
  fit_slope :: fval
  fit_slope_ci :: fval
  fit_intercept :: fval
  fit_intercept_ci :: fval
  fit_r_squared :: fval

definition fit_series :: "stats_lib \<Rightarrow> real list \<Rightarrow> real list \<Rightarrow> error + fit" where
  "fit_series lib x y =
     (let r = pearsonr_r x y;
          p = pearsonr_p lib x y
      in case linregress x y of
           Inl e \<Rightarrow> Inl e
         | Inr lr \<Rightarrow>
             (let r_squared = Fin ((lr_rvalue lr)\<^sup>2);
                  t_val = t_ppf lib (975 / 1000) (dof x);
                  slope_ci = fmul t_val (se_slope x y (Fin (lr_slope lr)) (Fin (lr_intercept lr)));
                  intercept_ci =
                    fmul t_val (se_intercept x y (Fin (lr_slope lr)) (Fin (lr_intercept lr)))
              in Inr \<lparr>fit_r = r, fit_p = p, fit_slope = Fin (lr_slope lr),
                      fit_slope_ci = slope_ci, fit_intercept = Fin (lr_intercept lr),
                      fit_intercept_ci = intercept_ci, fit_r_squared = r_squared\<rparr>))"

subsection \<open>Formatting\<close>

text \<open>
  \<^verbatim>\<open>format_sci(val, precision)\<close> is \<^verbatim>\<open>f"{val:.{precision}e}"\<close>. Python writes a finite
  number as a coefficient with one digit before the point and \<open>precision\<close> digits
  after it, the number rounded correctly (ties to even), then \<open>e\<close>, the sign of the
  exponent and at least two exponent digits; the special values are written \<open>nan\<close>,
  \<open>inf\<close> and \<open>-inf\<close>. The functions below compute that string: \<open>scale_down\<close> and
  \<open>scale_up\<close> bring a positive number into \<open>[1, 10)\<close> and count the decimal exponent.
\<close>

definition digit_char :: "nat \<Rightarrow> char" where
  "digit_char d = ''0123456789'' ! (d mod 10)"

fun dec_digits :: "nat \<Rightarrow> nat \<Rightarrow> string" where
  "dec_digits 0 q = []"
| "dec_digits (Suc k) q = dec_digits k (q div 10) @ [digit_char (q mod 10)]"

function show_nat :: "nat \<Rightarrow> string" where
  "show_nat n = (if n < 10 then [digit_char n] else show_nat (n div 10) @ [digit_char (n mod 10)])"
  by pat_completeness auto
termination
proof (relation "measure id")
  show "wf (measure (id :: nat \<Rightarrow> nat))" by simp
next
  fix n :: nat
  assume "\<not> n < 10"
  then show "(n div 10, n) \<in> measure id" by simp
qed

function scale_down :: "real \<Rightarrow> int \<Rightarrow> real \<times> int" where
  "scale_down a e = (if 10 \<le> a then scale_down (a / 10) (e + 1) else (a, e))"
  by pat_completeness auto
termination
proof (relation "measure (\<lambda>(a, e). nat \<lfloor>a\<rfloor>)")
  show "wf (measure (\<lambda>(a::real, e::int). nat \<lfloor>a\<rfloor>))" by simp
next
  fix a :: real and e :: int
  assume "10 \<le> a"
  then have "\<lfloor>a / 10\<rfloor> < \<lfloor>a\<rfloor>" by linarith
  moreover have "0 < \<lfloor>a\<rfloor>" using \<open>10 \<le> a\<close> by linarith
  ultimately show "((a / 10, e + 1), (a, e)) \<in> measure (\<lambda>(a, e). nat \<lfloor>a\<rfloor>)"
    by simp
qed

function scale_up :: "real \<Rightarrow> int \<Rightarrow> real \<times> int" where
  "scale_up a e = (if 0 < a \<and> a < 1 then scale_up (a * 10) (e - 1) else (a, e))"
  by pat_completeness auto
termination
proof (relation "measure (\<lambda>(a, e). nat \<lceil>1 / a\<rceil>)")
  show "wf (measure (\<lambda>(a::real, e::int). nat \<lceil>1 / a\<rceil>))" by simp
next
  fix a :: real and e :: int
  assume h: "0 < a \<and> a < 1"
  then have "1 < 1 / a" by simp
  then have c2: "2 \<le> \<lceil>1 / a\<rceil>" by linarith
  have "1 / (a * 10) = (1 / a) / 10" by simp
  also have "\<dots> \<le> of_int \<lceil>1 / a\<rceil> / 10" by (simp add: divide_right_mono)
  also have "\<dots> \<le> of_int (\<lceil>1 / a\<rceil> - 1)"
  proof -
    have "2 \<le> real_of_int \<lceil>1 / a\<rceil>" using c2 by linarith
    then have "real_of_int \<lceil>1 / a\<rceil> / 10 \<le> real_of_int \<lceil>1 / a\<rceil> - 1" by linarith
    then show ?thesis by simp
  qed
  finally have "\<lceil>1 / (a * 10)\<rceil> \<le> \<lceil>1 / a\<rceil> - 1" by (rule ceiling_le)
  then show "((a * 10, e - 1), (a, e)) \<in> measure (\<lambda>(a, e). nat \<lceil>1 / a\<rceil>)"
    using c2 h by simp
qed

definition round_half_even :: "real \<Rightarrow> int" where
  "round_half_even a =
     (let f = \<lfloor>a\<rfloor>; d = a - of_int f
      in if d < 1 / 2 then f else if 1 / 2 < d then f + 1 else if even f then f else f + 1)"

definition sci_parts :: "real \<Rightarrow> nat \<Rightarrow> nat \<times> int" where
  "sci_parts a precision =
     (case (if 10 \<le> a then scale_down a 0 else scale_up a 0) of (m, e) \<Rightarrow>
        (let q = nat (round_half_even (m * 10 ^ precision))
         in if 10 ^ Suc precision \<le> q then (q div 10, e + 1) else (q, e)))"

definition format_finite :: "real \<Rightarrow> nat \<Rightarrow> string" where
  "format_finite v precision =
     (case (if v = 0 then (0, 0) else sci_parts \<bar>v\<bar> precision) of (q, e) \<Rightarrow>
        (let ds = dec_digits (Suc precision) q
         in (if v < 0 then ''-'' else '''')
            @ [hd ds] @ (if precision = 0 then [] else ''.'' @ tl ds)
            @ ''e'' @ (if e < 0 then ''-'' else ''+'')
            @ (if \<bar>e\<bar> < 10 then ''0'' else '''') @ show_nat (nat \<bar>e\<bar>)))"


fun format_sci :: "fval \<Rightarrow> nat \<Rightarrow> string" where
  "format_sci (Fin v) precision = format_finite v precision"
| "format_sci NaN precision = ''nan''"
| "format_sci PInf precision = ''inf''"
| "format_sci NInf precision = ''-inf''"

text \<open>The separator \<^verbatim>\<open>" \<plusminus> "\<close> of the two f-strings, the sign in UTF-8.\<close>

definition plus_minus :: string where
  "plus_minus = [CHR '' '', CHR 0xC2, CHR 0xB1, CHR '' '']"

record summary_rec =
  DGM_Region :: string
  MRI_Parameter :: string
  Pearson_r :: string
  p_value :: string
  Slope_a :: string
  Intercept_b :: string
  R_square :: string

text \<open>The dictionary of \<^verbatim>\<open>summary.append\<close>.\<close>

definition summary_record :: "string \<Rightarrow> string \<Rightarrow> fit \<Rightarrow> summary_rec" where
  "summary_record region metric f =
     \<lparr>DGM_Region = region,
      MRI_Parameter = metric,
      Pearson_r = format_sci (fit_r f) 4,
      p_value = format_sci (fit_p f) 2,
      Slope_a = format_sci (fit_slope f) 2 @ plus_minus @ format_sci (fit_slope_ci f) 2,
      Intercept_b =
        format_sci (fit_intercept f) 2 @ plus_minus @ format_sci (fit_intercept_ci f) 2,
      R_square = format_sci (fit_r_squared f) 4\<rparr>"

subsection \<open>Statistics and output\<close>

text \<open>\<^verbatim>\<open>y.nunique()\<close> counts the distinct values that are not null.\<close>

definition nunique :: "fval list \<Rightarrow> nat" where
  "nunique y = length (remdups (filter (\<lambda>v. \<not> isnull v) y))"

text \<open>
  The condition of line 157:
  \<^verbatim>\<open>x.isnull().any() or y.isnull().any() or not np.isfinite(y).all() or y.nunique() < 2\<close>
\<close>

definition skip_series :: "real option list \<Rightarrow> fval list \<Rightarrow> bool" where
  "skip_series x y \<longleftrightarrow>
     list_ex (\<lambda>a. a = None) x \<or> list_ex isnull y \<or> \<not> list_all isfinite y \<or> nunique y < 2"

text \<open>\<^verbatim>\<open>data[(data['metric'] == metric) & (data['region'] == region)]\<close>\<close>

definition series :: "trow list \<Rightarrow> string \<Rightarrow> string \<Rightarrow> trow list" where
  "series data metric region =
     filter (\<lambda>r. r_metric r = Some metric \<and> r_region r = Some region) data"

text \<open>
  The body of the loop over the regions: \<open>Inr None\<close> when the region is skipped,
  \<open>Inr (Some rec)\<close> when a summary record is appended, \<open>Inl\<close> when the fit raises.
\<close>

definition region_step ::
  "stats_lib \<Rightarrow> trow list \<Rightarrow> string \<Rightarrow> string \<Rightarrow> error + summary_rec option" where
  "region_step lib data metric region =
     (let df = series data metric region
      in if length df < 2 then Inr None
         else
           (let x = map temperature df;
                y = map r_value df
            in if skip_series x y then Inr None
               else
                 (case fit_series lib (map the x) (map fin_of y) of
                    Inl e \<Rightarrow> Inl e
                  | Inr f \<Rightarrow> Inr (Some (summary_record region metric f)))))"

text \<open>
  The loop over the regions of one group, with the list \<^verbatim>\<open>summary\<close> and the counter
  \<^verbatim>\<open>added_regions\<close>.
\<close>

fun regions_loop ::
  "stats_lib \<Rightarrow> trow list \<Rightarrow> string \<Rightarrow> string list \<Rightarrow> summary_rec list \<times> nat
     \<Rightarrow> error + summary_rec list \<times> nat" where
  "regions_loop lib data metric [] st = Inr st"
| "regions_loop lib data metric (region # regions) (summary, added_regions) =
     (case region_step lib data metric region of
        Inl e \<Rightarrow> Inl e
      | Inr None \<Rightarrow> regions_loop lib data metric regions (summary, added_regions)
      | Inr (Some rec) \<Rightarrow>
          regions_loop lib data metric regions (summary @ [rec], added_regions + 1))"

text \<open>The files the run writes, in the order it writes them.\<close>

datatype written_file =
    Plot_file string
  | Summary_csv "summary_rec list"

definition plot_name :: "string \<Rightarrow> string \<Rightarrow> string \<Rightarrow> string" where
  "plot_name metric group_name ext =
     metric @ ''_'' @ map (\<lambda>c. if c = CHR '' '' then CHR ''_'' else c) group_name
     @ ''_vs_temp.'' @ ext"

text \<open>
  The two outer loops, over the pairs of a metric and a structure group in the order
  of the script. An exception leaves the files written so far; at the end the summary
  table and the legend image are written.
\<close>

fun groups_loop ::
  "stats_lib \<Rightarrow> trow list \<Rightarrow> (string \<times> string \<times> string list) list \<Rightarrow> summary_rec list
     \<Rightarrow> written_file list \<Rightarrow> error option \<times> written_file list" where
  "groups_loop lib data [] summary written =
     (None, written @ [Summary_csv summary, Plot_file ''legend_only.png''])"
| "groups_loop lib data ((metric, group_name, regions) # rest) summary written =
     (case regions_loop lib data metric regions (summary, 0) of
        Inl e \<Rightarrow> (Some e, written)
      | Inr (summary', added_regions) \<Rightarrow>
          groups_loop lib data rest summary'
            (if 0 < added_regions
             then written @ [Plot_file (plot_name metric group_name ''png''),
                             Plot_file (plot_name metric group_name ''svg'')]
             else written))"

text \<open>The whole script: the exception it ends with, if any, and the files written.\<close>

definition run ::
  "stats_lib \<Rightarrow> temp_rec list \<Rightarrow> case_folder list \<Rightarrow> error option \<times> written_file list" where
  "run lib temp_df case_folders =
     (case ingest temp_df case_folders of
        Inl e \<Rightarrow> (Some e, [])
      | Inr data \<Rightarrow> groups_loop lib data (List.product metrics structure_groups) [] [])"

subsection \<open>The standard errors in the words of the specification\<close>

text \<open>
  The specification gives the standard errors by formulas over the \<open>n\<close> points
  \<open>(x\<^sub>i, y\<^sub>i)\<close>: the residual standard error over \<open>n - 2\<close> degrees of freedom, the
  slope's standard error as the residual standard error over \<open>sqrt (\<Sum>(x - m)\<^sup>2)\<close>
  with the mean \<open>m\<close> of the \<open>x\<^sub>i\<close>, the intercept's as the residual standard error
  times \<open>sqrt (1/n + m\<^sup>2 / \<Sum>(x - m)\<^sup>2)\<close>, and the half-width of the confidence interval as
  t-critical(0.975, n - 2) times the standard error. These definitions follow that
  wording, for a fitted line \<open>y = a * x + b\<close>; they are compared with the script's
  computation below.
\<close>

definition spec_mean :: "real list \<Rightarrow> real" where
  "spec_mean x = (\<Sum>i<length x. x ! i) / real (length x)"

definition spec_sxx :: "real list \<Rightarrow> real" where
  "spec_sxx x = (\<Sum>i<length x. (x ! i - spec_mean x)\<^sup>2)"

definition spec_residual_se :: "real list \<Rightarrow> real list \<Rightarrow> real \<Rightarrow> real \<Rightarrow> fval" where
  "spec_residual_se x y a b =
     fsqrt (fdiv (Fin (\<Sum>i<length x. (y ! i - (a * x ! i + b))\<^sup>2))
                 (Fin (real (length x) - 2)))"

definition spec_slope_se :: "real list \<Rightarrow> real list \<Rightarrow> real \<Rightarrow> real \<Rightarrow> fval" where
  "spec_slope_se x y a b = fdiv (spec_residual_se x y a b) (fsqrt (Fin (spec_sxx x)))"

definition spec_intercept_se :: "real list \<Rightarrow> real list \<Rightarrow> real \<Rightarrow> real \<Rightarrow> fval" where
  "spec_intercept_se x y a b =
     fmul (spec_residual_se x y a b)
       (fsqrt (fadd (Fin (1 / real (length x)))
                    (fdiv (Fin ((spec_mean x)\<^sup>2)) (Fin (spec_sxx x)))))"

definition spec_half_width :: "stats_lib \<Rightarrow> real list \<Rightarrow> fval \<Rightarrow> fval" where
  "spec_half_width lib x se = fmul (t_ppf lib (975 / 1000) (int (length x) - 2)) se"

subsection \<open>Counting the digits of a formatted number\<close>




section \<open>Deduplication\<close>

lemma key_of_group_row: "key_of (group_row df k) = Some k"
  by (cases k) (simp add: group_row_def key_of_def)

lemma keys_group_first: "map key_of (group_first df) = map Some (group_keys df)"
  by (simp add: group_first_def key_of_group_row comp_def)

lemma distinct_group_keys: "distinct (group_keys df)"
  by (simp add: group_keys_def)

lemma set_group_keys: "set (group_keys df) = {k. \<exists>r \<in> set df. key_of r = Some k}"
  by (force simp: group_keys_def map_filter_def)

lemma filter_key_group_first:
  "filter (\<lambda>q. key_of q = Some k) (group_first df) =
     (if k \<in> set (group_keys df) then [group_row df k] else [])"
proof -
  have "filter (\<lambda>q. key_of q = Some k) (map (group_row df) ks) =
          map (group_row df) (filter (\<lambda>j. j = k) ks)" for ks
    by (induction ks) (simp_all add: key_of_group_row)
  moreover have "filter (\<lambda>j. j = k) ks = (if k \<in> set ks then [k] else [])"
    if "distinct ks" for ks
    using that by (induction ks) auto
  ultimately show ?thesis
    by (simp add: group_first_def distinct_group_keys)
qed

lemma first_notnull_first:
  assumes "vs = pre @ v # post" and "\<forall>u \<in> set pre. isnull u" and "\<not> isnull v"
  shows "first_notnull vs = v"
proof -
  have "filter (\<lambda>u. \<not> isnull u) pre = []"
    using assms(2) by (simp add: filter_empty_conv)
  then show ?thesis
    using assms(1,3) by (simp add: first_notnull_def)
qed

lemma row_eq_group_row:
  assumes "key_of r = Some k"
  shows "r = group_row df k \<longleftrightarrow>
           r_value r = first_notnull (map r_value (filter (\<lambda>q. key_of q = Some k) df))"
  using assms
  by (cases k) (auto simp: group_row_def key_of_def split: option.splits)

text \<open>
  C5, as the code has it. After \<^verbatim>\<open>groupby(['case', 'metric', 'region']).first()\<close> no two
  rows share a key, so at most one row survives per (case, metric, region). The row
  that survives for a key is the first row with that key whose value is not missing:
  it is the first-encountered row whenever that row's value is present, whatever the
  later rows hold.
\<close>

theorem group_first_first_notnull:
  "distinct (map key_of (group_first df)) \<and>
   (df = pre @ r # post \<and> key_of r = Some k \<and> \<not> isnull (r_value r) \<and>
    (\<forall>q \<in> set pre. key_of q = Some k \<longrightarrow> isnull (r_value q))
      \<longrightarrow> filter (\<lambda>q. key_of q = Some k) (group_first df) = [r])"
proof (intro conjI impI)
  show "distinct (map key_of (group_first df))"
    by (simp add: keys_group_first distinct_map distinct_group_keys)
next
  assume a: "df = pre @ r # post \<and> key_of r = Some k \<and> \<not> isnull (r_value r) \<and>
    (\<forall>q \<in> set pre. key_of q = Some k \<longrightarrow> isnull (r_value q))"
  then have k_in: "k \<in> set (group_keys df)"
    by (auto simp: set_group_keys)
  let ?same = "\<lambda>q. key_of q = Some k"
  have "map r_value (filter ?same df) =
          map r_value (filter ?same pre) @ r_value r # map r_value (filter ?same post)"
    using a by simp
  moreover have "\<forall>u \<in> set (map r_value (filter ?same pre)). isnull u"
    using a by auto
  ultimately have "first_notnull (map r_value (filter ?same df)) = r_value r"
    using a first_notnull_first by blast
  then have "r = group_row df k"
    using a row_eq_group_row by simp
  then show "filter ?same (group_first df) = [r]"
    using k_in by (simp add: filter_key_group_first)
qed

theorem group_first_first_notnull_witness:
  "filter (\<lambda>q. key_of q = Some (''A'', ''FA'', ''Caudate''))
     (group_first
        [\<lparr>r_case = Some ''A'', r_metric = Some ''FA'', r_region = Some ''Caudate'', r_value = NaN\<rparr>,
         \<lparr>r_case = Some ''A'', r_metric = Some ''FA'', r_region = Some ''Caudate'', r_value = Fin (1 / 2)\<rparr>,
         \<lparr>r_case = Some ''A'', r_metric = Some ''FA'', r_region = Some ''Caudate'', r_value = Fin (9 / 10)\<rparr>])
   = [\<lparr>r_case = Some ''A'', r_metric = Some ''FA'', r_region = Some ''Caudate'', r_value = Fin (1 / 2)\<rparr>]"
  using group_first_first_notnull
    [of "[\<lparr>r_case = Some ''A'', r_metric = Some ''FA'', r_region = Some ''Caudate'', r_value = NaN\<rparr>,
         \<lparr>r_case = Some ''A'', r_metric = Some ''FA'', r_region = Some ''Caudate'', r_value = Fin (1 / 2)\<rparr>,
         \<lparr>r_case = Some ''A'', r_metric = Some ''FA'', r_region = Some ''Caudate'', r_value = Fin (9 / 10)\<rparr>]"
        "[\<lparr>r_case = Some ''A'', r_metric = Some ''FA'', r_region = Some ''Caudate'', r_value = NaN\<rparr>]"
        "\<lparr>r_case = Some ''A'', r_metric = Some ''FA'', r_region = Some ''Caudate'', r_value = Fin (1 / 2)\<rparr>"
        "[\<lparr>r_case = Some ''A'', r_metric = Some ''FA'', r_region = Some ''Caudate'', r_value = Fin (9 / 10)\<rparr>]"
        "(''A'', ''FA'', ''Caudate'')"]
  by (simp add: key_of_def)

text \<open>
  The claim as written, that the value of the first-encountered row survives, fails
  when that row's value is missing: of two rows with the same key, the first without a
  number and the second with \<open>0.5\<close>, the value \<open>0.5\<close> of the second row survives.
\<close>

theorem group_first_first_row_counterexample:
  "map r_value
     (group_first
        [\<lparr>r_case = Some ''A'', r_metric = Some ''FA'', r_region = Some ''Caudate'', r_value = NaN\<rparr>,
         \<lparr>r_case = Some ''A'', r_metric = Some ''FA'', r_region = Some ''Caudate'', r_value = Fin (1 / 2)\<rparr>])
   = [Fin (1 / 2)]
   \<and> Fin (1 / 2) \<noteq> r_value \<lparr>r_case = Some ''A'', r_metric = Some ''FA'', r_region = Some ''Caudate'', r_value = NaN\<rparr>"
  by (simp add: group_first_def group_keys_def group_row_def key_of_def map_filter_def
      first_notnull_def)

section \<open>Replacement of T1 rows\<close>

lemma r_metric_attach: "r_metric (attach t r) = r_metric r"
  by (simp add: attach_def)

lemma filter_metric_attach:
  "filter (\<lambda>r. P (r_metric r)) (map (attach t) df) =
     map (attach t) (filter (\<lambda>r. P (r_metric r)) df)"
  by (induction df) (simp_all add: r_metric_attach)

lemma metric_subset_Cons:
  "metric_subset df (tr # trs) metric =
     [map (attach (temp_map metric tr)) (filter (\<lambda>r. r_metric r = Some metric) df)]"
  by (simp add: metric_subset_def)

lemma group_first_metric:
  assumes "\<forall>q \<in> set df. r_metric q = Some m" and "r \<in> set (group_first df)"
  shows "r_metric r = Some m"
proof -
  obtain k where k: "r = group_row df k" "k \<in> set (group_keys df)"
    using assms(2) by (auto simp: group_first_def)
  then obtain q where q: "q \<in> set df" "key_of q = Some k"
    by (auto simp: set_group_keys)
  obtain c m' g where kk: "k = (c, m', g)" by (cases k)
  with q have "r_metric q = Some m'"
    by (auto simp: key_of_def split: option.splits)
  with assms(1) q have "m' = m" by auto
  with k kk show ?thesis by (simp add: group_row_def)
qed

lemma case_rows:
  assumes "file_main cf = Some main"
    and "filter (\<lambda>t. t_case t = case_name cf) temp_df = tr # trs"
  shows "concat (process_case temp_df cf) =
     concat (map (\<lambda>metric. map (attach (temp_map metric tr))
        (filter (\<lambda>r. r_metric r = Some metric)
           (replace_t1 main (case file_t1 cf of Some t \<Rightarrow> t | None \<Rightarrow> [])))) metrics)"
  using assms by (simp add: process_case_def metric_subset_Cons Let_def metrics_def)


lemma filter_metric_group_first_T1:
  "filter (\<lambda>r. P (r_metric r))
     (group_first (filter (\<lambda>r. r_metric r = Some ''T1'') df)) =
   (if P (Some ''T1'') then group_first (filter (\<lambda>r. r_metric r = Some ''T1'') df) else [])"
proof -
  have allq: "\<forall>q \<in> set (filter (\<lambda>r. r_metric r = Some ''T1'') df). r_metric q = Some ''T1''"
    by simp
  have "\<forall>r \<in> set (group_first (filter (\<lambda>r. r_metric r = Some ''T1'') df)).
          r_metric r = Some ''T1''"
  proof
    fix r
    assume mem: "r \<in> set (group_first (filter (\<lambda>r. r_metric r = Some ''T1'') df))"
    show "r_metric r = Some ''T1''"
      by (rule group_first_metric [OF allq mem])
  qed
  then have all: "\<forall>r \<in> set (group_first (filter (\<lambda>r. r_metric r = Some ''T1'') df)).
          P (r_metric r) = P (Some ''T1'')"
    by metis
  show ?thesis
  proof (cases "P (Some ''T1'')")
    case True
    with all have "\<forall>r \<in> set (group_first (filter (\<lambda>r. r_metric r = Some ''T1'') df)).
          P (r_metric r)"
      by blast
    then have "filter (\<lambda>r. P (r_metric r))
        (group_first (filter (\<lambda>r. r_metric r = Some ''T1'') df)) =
        group_first (filter (\<lambda>r. r_metric r = Some ''T1'') df)"
      by (rule filter_True)
    with True show ?thesis by (simp only: if_True)
  next
    case False
    with all have "\<forall>r \<in> set (group_first (filter (\<lambda>r. r_metric r = Some ''T1'') df)).
          \<not> P (r_metric r)"
      by blast
    then have "filter (\<lambda>r. P (r_metric r))
        (group_first (filter (\<lambda>r. r_metric r = Some ''T1'') df)) = []"
      by (rule filter_False)
    with False show ?thesis by (simp only: if_False)
  qed
qed

lemma replace_t1_subset:
  assumes "t1 \<noteq> []"
  shows "filter (\<lambda>r. r_metric r = Some m) (replace_t1 main t1) =
     (if m = ''T1''
      then group_first (filter (\<lambda>r. r_metric r = Some ''T1'') (exclude_regions t1))
      else filter (\<lambda>r. r_metric r = Some m) (group_first (exclude_regions main)))"
proof -
  have a: "filter (\<lambda>r. r_metric r = Some m)
             (filter (\<lambda>r. r_metric r \<noteq> Some ''T1'') df) =
           (if m = ''T1'' then [] else filter (\<lambda>r. r_metric r = Some m) df)" for df
    by (induction df) auto
  have b: "filter (\<lambda>r. r_metric r = Some m)
             (group_first (filter (\<lambda>r. r_metric r = Some ''T1'') (exclude_regions t1))) =
           (if m = ''T1''
            then group_first (filter (\<lambda>r. r_metric r = Some ''T1'') (exclude_regions t1))
            else [])"
    using filter_metric_group_first_T1 [of "\<lambda>x. x = Some m" "exclude_regions t1"]
    by auto
  show ?thesis
    using assms by (simp add: replace_t1_def a b del: filter_filter)
qed

text \<open>
  C3, as the code has it. For a case folder with a primary file, a corrected-T1 file
  that holds at least one row, and a row in the temperature table, the T1 rows the
  case contributes are exactly the T1 rows of the corrected file after region exclusion
  and deduplication, with the case's T1 temperature attached: no T1 row of the primary
  file is among them. The rows of the other metrics are the ones the case would
  contribute without a corrected file.
\<close>

theorem corrected_t1_replaces:
  assumes "file_main cf = Some main" and "file_t1 cf = Some t1" and "t1 \<noteq> []"
    and "filter (\<lambda>t. t_case t = case_name cf) temp_df = tr # trs"
  shows "filter (\<lambda>r. r_metric r = Some ''T1'') (concat (process_case temp_df cf)) =
           map (attach (temp_T1 tr))
             (group_first (filter (\<lambda>r. r_metric r = Some ''T1'') (exclude_regions t1)))
         \<and> filter (\<lambda>r. r_metric r \<noteq> Some ''T1'') (concat (process_case temp_df cf)) =
           filter (\<lambda>r. r_metric r \<noteq> Some ''T1'')
             (concat (process_case temp_df (cf\<lparr>file_t1 := None\<rparr>)))"
proof
  let ?C = "group_first (filter (\<lambda>r. r_metric r = Some ''T1'') (exclude_regions t1))"
  let ?G = "group_first (exclude_regions main)"
  have rows: "concat (process_case temp_df cf) =
      concat (map (\<lambda>metric. map (attach (temp_map metric tr))
        (if metric = ''T1'' then ?C else filter (\<lambda>r. r_metric r = Some metric) ?G)) metrics)"
    using case_rows [OF assms(1) assms(4)] assms(2) replace_t1_subset [OF assms(3)]
    by simp
  have rows0: "concat (process_case temp_df (cf\<lparr>file_t1 := None\<rparr>)) =
      concat (map (\<lambda>metric. map (attach (temp_map metric tr))
        (filter (\<lambda>r. r_metric r = Some metric) ?G)) metrics)"
    using case_rows [of "cf\<lparr>file_t1 := None\<rparr>" main temp_df tr trs] assms(1) assms(4)
    by (simp add: replace_t1_def)
  have c: "filter (\<lambda>r. r_metric r = Some ''T1'') ?C = ?C"
    using filter_metric_group_first_T1 [of "\<lambda>x. x = Some ''T1''" "exclude_regions t1"]
    by simp
  have nc: "filter (\<lambda>r. r_metric r \<noteq> Some ''T1'') ?C = []"
    using filter_metric_group_first_T1 [of "\<lambda>x. x \<noteq> Some ''T1''" "exclude_regions t1"]
    by simp
  have g: "filter (\<lambda>r. r_metric r = Some ''T1'')
             (filter (\<lambda>r. r_metric r = Some m) ?G) = []" if "m \<noteq> ''T1''" for m
    using that by (auto simp: filter_empty_conv)
  have ng: "filter (\<lambda>r. r_metric r \<noteq> Some ''T1'')
             (filter (\<lambda>r. r_metric r = Some ''T1'') ?G) = []"
    by (auto simp: filter_empty_conv)
  show "filter (\<lambda>r. r_metric r = Some ''T1'') (concat (process_case temp_df cf)) =
          map (attach (temp_T1 tr)) ?C"
    unfolding rows
    by (simp add: metrics_def temp_map_def c g
        filter_metric_attach [of "\<lambda>x. x = Some ''T1''"])
  show "filter (\<lambda>r. r_metric r \<noteq> Some ''T1'') (concat (process_case temp_df cf)) =
          filter (\<lambda>r. r_metric r \<noteq> Some ''T1'')
            (concat (process_case temp_df (cf\<lparr>file_t1 := None\<rparr>)))"
    unfolding rows rows0
    by (simp add: metrics_def nc ng filter_metric_attach [of "\<lambda>x. x \<noteq> Some ''T1''"])
qed

lemmas ingest_eval = process_case_def replace_t1_def group_first_def group_keys_def
  group_row_def key_of_def map_filter_def first_notnull_def exclude_regions_def
  region_exclude_def metric_subset_def metrics_def temp_map_def attach_def all_data_def
  ingest_def

theorem corrected_t1_replaces_witness:
  "filter (\<lambda>r. r_metric r = Some ''T1'')
     (concat (process_case
        [\<lparr>t_case = ''A'', temp_DTI = Some 20, temp_T1 = Some 21, temp_T2 = Some 22,
          temp_T2s = Some 23\<rparr>]
        \<lparr>case_name = ''A'',
         file_main = Some
           [\<lparr>r_case = Some ''A'', r_metric = Some ''T1'', r_region = Some ''Caudate'', r_value = Fin 1000\<rparr>,
            \<lparr>r_case = Some ''A'', r_metric = Some ''FA'', r_region = Some ''Caudate'', r_value = Fin (1 / 2)\<rparr>],
         file_t1 = Some
           [\<lparr>r_case = Some ''A'', r_metric = Some ''T1'', r_region = Some ''Caudate'', r_value = Fin 900\<rparr>]\<rparr>))
   = [\<lparr>r_case = Some ''A'', r_metric = Some ''T1'', r_region = Some ''Caudate'', r_value = Fin 900,
       temperature = Some 21\<rparr>]"
  using corrected_t1_replaces
    [of "\<lparr>case_name = ''A'',
         file_main = Some
           [\<lparr>r_case = Some ''A'', r_metric = Some ''T1'', r_region = Some ''Caudate'', r_value = Fin 1000\<rparr>,
            \<lparr>r_case = Some ''A'', r_metric = Some ''FA'', r_region = Some ''Caudate'', r_value = Fin (1 / 2)\<rparr>],
         file_t1 = Some
           [\<lparr>r_case = Some ''A'', r_metric = Some ''T1'', r_region = Some ''Caudate'', r_value = Fin 900\<rparr>]\<rparr>"
        "[\<lparr>r_case = Some ''A'', r_metric = Some ''T1'', r_region = Some ''Caudate'', r_value = Fin 1000\<rparr>,
          \<lparr>r_case = Some ''A'', r_metric = Some ''FA'', r_region = Some ''Caudate'', r_value = Fin (1 / 2)\<rparr>]"
        "[\<lparr>r_case = Some ''A'', r_metric = Some ''T1'', r_region = Some ''Caudate'', r_value = Fin 900\<rparr>]"
        "[\<lparr>t_case = ''A'', temp_DTI = Some 20, temp_T1 = Some 21, temp_T2 = Some 22,
          temp_T2s = Some 23\<rparr>]"
        "\<lparr>t_case = ''A'', temp_DTI = Some 20, temp_T1 = Some 21, temp_T2 = Some 22,
          temp_T2s = Some 23\<rparr>"
        "[]"]
  by (simp add: group_first_def group_keys_def group_row_def key_of_def map_filter_def
      first_notnull_def exclude_regions_def region_exclude_def attach_def)

text \<open>
  The claim as written fails for a case whose corrected-T1 file exists but holds no
  row (the uncorrected T1 row stays), and for a case with a corrected-T1 file that has
  no row in the temperature table (the table holds none of its rows).
\<close>

theorem corrected_t1_counterexample:
  "concat (process_case
     [\<lparr>t_case = ''A'', temp_DTI = Some 20, temp_T1 = Some 21, temp_T2 = Some 22,
       temp_T2s = Some 23\<rparr>]
     \<lparr>case_name = ''A'',
      file_main = Some
        [\<lparr>r_case = Some ''A'', r_metric = Some ''T1'', r_region = Some ''Caudate'', r_value = Fin 1000\<rparr>],
      file_t1 = Some []\<rparr>)
   = [\<lparr>r_case = Some ''A'', r_metric = Some ''T1'', r_region = Some ''Caudate'', r_value = Fin 1000,
       temperature = Some 21\<rparr>]
   \<and> concat (process_case []
     \<lparr>case_name = ''A'',
      file_main = Some
        [\<lparr>r_case = Some ''A'', r_metric = Some ''T1'', r_region = Some ''Caudate'', r_value = Fin 1000\<rparr>],
      file_t1 = Some
        [\<lparr>r_case = Some ''A'', r_metric = Some ''T1'', r_region = Some ''Caudate'', r_value = Fin 900\<rparr>]\<rparr>)
   = []"
  by (simp add: ingest_eval)

section \<open>Missing temperature values\<close>

text \<open>
  C4. The check \<^verbatim>\<open>len(temp_value) == 0\<close> can never hold once the case has a row in
  the temperature table (\<open>metric_subset_Cons\<close>): a blank temperature cell is not
  skipped, the rows of the metric are appended with a missing temperature. Here the
  case \<open>A\<close> has no DTI temperature and its FA row is in the aggregated table all the
  same.
\<close>

theorem missing_temperature_kept:
  "ingest
     [\<lparr>t_case = ''A'', temp_DTI = None, temp_T1 = Some 21, temp_T2 = Some 22,
       temp_T2s = Some 23\<rparr>]
     [\<lparr>case_name = ''A'',
       file_main = Some
         [\<lparr>r_case = Some ''A'', r_metric = Some ''FA'', r_region = Some ''Caudate'', r_value = Fin (1 / 2)\<rparr>],
       file_t1 = None\<rparr>]
   = Inr [\<lparr>r_case = Some ''A'', r_metric = Some ''FA'', r_region = Some ''Caudate'',
           r_value = Fin (1 / 2), temperature = None\<rparr>]"
  by (simp add: ingest_eval)

section \<open>The fatal error\<close>

lemma linregress_error: "linregress x y = Inl e \<Longrightarrow> e = IdenticalX"
  by (auto simp: linregress_def Let_def split: if_splits)

lemma fit_series_error: "fit_series lib x y = Inl e \<Longrightarrow> e = IdenticalX"
  by (auto simp: fit_series_def Let_def split: sum.splits dest: linregress_error)

lemma region_step_error: "region_step lib data metric region = Inl e \<Longrightarrow> e = IdenticalX"
  by (auto simp: region_step_def Let_def split: if_splits sum.splits dest: fit_series_error)

lemma regions_loop_error:
  "regions_loop lib data metric regions st = Inl e \<Longrightarrow> e = IdenticalX"
proof (induction regions arbitrary: st)
  case Nil
  then show ?case by simp
next
  case (Cons region regions)
  obtain summary added where st: "st = (summary, added)" by (cases st)
  show ?case
  proof (cases "region_step lib data metric region")
    case (Inl e')
    with Cons.prems st show ?thesis
      by (auto dest: region_step_error)
  next
    case (Inr res)
    with Cons.prems st Cons.IH show ?thesis
      by (cases res) auto
  qed
qed

lemma groups_loop_error:
  "fst (groups_loop lib data pairs summary written) \<noteq> Some NoValidData"
proof (induction pairs arbitrary: summary written)
  case Nil
  then show ?case by simp
next
  case (Cons pair pairs)
  obtain metric group_name regions where pair: "pair = (metric, group_name, regions)"
    by (cases pair)
  show ?case
  proof (cases "regions_loop lib data metric regions (summary, 0)")
    case (Inl e)
    then have "e = IdenticalX" by (rule regions_loop_error)
    with Inl pair show ?thesis by simp
  next
    case (Inr res)
    obtain summary' added where "res = (summary', added)" by (cases res)
    with Inr pair Cons.IH show ?thesis by simp
  qed
qed

lemma process_case_empty:
  "process_case temp_df cf = [] \<longleftrightarrow>
     file_main cf = None \<or> (\<forall>t \<in> set temp_df. t_case t \<noteq> case_name cf)"
proof (cases "file_main cf")
  case None
  then show ?thesis by (simp add: process_case_def)
next
  case (Some main)
  show ?thesis
  proof (cases "filter (\<lambda>t. t_case t = case_name cf) temp_df")
    case Nil
    then have "\<forall>t \<in> set temp_df. t_case t \<noteq> case_name cf"
      by (simp add: filter_empty_conv)
    with Some Nil show ?thesis by (simp add: process_case_def)
  next
    case (Cons tr trs)
    then have "tr \<in> set (filter (\<lambda>t. t_case t = case_name cf) temp_df)" by simp
    then have "\<not> (\<forall>t \<in> set temp_df. t_case t \<noteq> case_name cf)" by auto
    with Some Cons show ?thesis
      by (auto simp: process_case_def metric_subset_Cons metrics_def Let_def)
  qed
qed

lemma all_data_empty:
  "all_data temp_df case_folders = [] \<longleftrightarrow>
     (\<forall>cf \<in> set case_folders.
        file_main cf = None \<or> (\<forall>t \<in> set temp_df. t_case t \<noteq> case_name cf))"
  by (simp add: all_data_def process_case_empty)

text \<open>
  C6, as the code has it. The run ends with the error of line 126 exactly when nothing
  was appended to \<^verbatim>\<open>all_data\<close>, that is when no case folder has both a primary file
  and a row in the temperature table; it then has written no file. (A table without
  rows is appended like any other, so a cohort whose tables are all empty does not
  raise the error.)
\<close>

theorem run_no_valid_data:
  "(fst (run lib temp_df case_folders) = Some NoValidData \<longleftrightarrow>
      (\<forall>cf \<in> set case_folders.
         file_main cf = None \<or> (\<forall>t \<in> set temp_df. t_case t \<noteq> case_name cf)))
   \<and> (fst (run lib temp_df case_folders) = Some NoValidData \<longrightarrow>
        snd (run lib temp_df case_folders) = [])"
proof (cases "all_data temp_df case_folders = []")
  case True
  then have "run lib temp_df case_folders = (Some NoValidData, [])"
    by (simp add: run_def ingest_def)
  with True all_data_empty [of temp_df case_folders] show ?thesis by simp
next
  case False
  then have "fst (run lib temp_df case_folders) \<noteq> Some NoValidData"
    by (simp add: run_def ingest_def Let_def groups_loop_error)
  with False all_data_empty [of temp_df case_folders] show ?thesis by simp
qed

theorem run_no_valid_data_witness:
  "fst (run \<lparr>pearsonr_p = (\<lambda>x y. NaN), t_ppf = (\<lambda>q d. NaN)\<rparr> []
          [\<lparr>case_name = ''A'', file_main = None, file_t1 = None\<rparr>]) = Some NoValidData
   \<and> snd (run \<lparr>pearsonr_p = (\<lambda>x y. NaN), t_ppf = (\<lambda>q d. NaN)\<rparr> []
          [\<lparr>case_name = ''A'', file_main = None, file_t1 = None\<rparr>]) = []"
  using run_no_valid_data
    [of "\<lparr>pearsonr_p = (\<lambda>x y. NaN), t_ppf = (\<lambda>q d. NaN)\<rparr>" "[]"
        "[\<lparr>case_name = ''A'', file_main = None, file_t1 = None\<rparr>]"]
  by simp

text \<open>
  The claim as written fails for a case whose primary file has no row: ingestion
  yields zero rows for the whole cohort, and the run does not abort but writes an
  empty summary and the legend image.
\<close>

theorem run_zero_rows_counterexample:
  "ingest
     [\<lparr>t_case = ''A'', temp_DTI = Some 20, temp_T1 = Some 21, temp_T2 = Some 22,
       temp_T2s = Some 23\<rparr>]
     [\<lparr>case_name = ''A'', file_main = Some [], file_t1 = None\<rparr>] = Inr []
   \<and> run \<lparr>pearsonr_p = (\<lambda>x y. NaN), t_ppf = (\<lambda>q d. NaN)\<rparr>
     [\<lparr>t_case = ''A'', temp_DTI = Some 20, temp_T1 = Some 21, temp_T2 = Some 22,
       temp_T2s = Some 23\<rparr>]
     [\<lparr>case_name = ''A'', file_main = Some [], file_t1 = None\<rparr>]
   = (None, [Summary_csv [], Plot_file ''legend_only.png''])"
  by (simp add: run_def ingest_eval structure_groups_def region_step_def series_def)

section \<open>The two-point example\<close>

lemma fmul_NaN_right: "fmul t NaN = NaN"
  by (cases t) simp_all

lemma fdiv_NaN_left: "fdiv NaN b = NaN"
  by simp

lemma linregress_two_points:
  "linregress [10, 30] [1 / 2, 7 / 10] =
     Inr \<lparr>lr_slope = 1 / 100, lr_intercept = 2 / 5, lr_rvalue = 1\<rparr>"
  by (simp add: linregress_def mean_def clip_def Let_def)

lemma pearsonr_two_points: "pearsonr_r [10, 30] [1 / 2, 7 / 10] = Fin 1"
proof -
  have "sqrt 200 * sqrt (2 * (1 / 10)\<^sup>2) = sqrt (200 * (2 * (1 / 10)\<^sup>2))"
    by (rule real_sqrt_mult [symmetric])
  also have "200 * (2 * (1 / 10)\<^sup>2) = (4::real)"
    by (simp add: power2_eq_square)
  finally have s: "sqrt 200 * sqrt (2 * (1 / 10)\<^sup>2) = 2" by simp
  show ?thesis
    using s by (simp add: pearsonr_r_def constant_input_def mean_def clip_def Let_def)
qed

lemma ci_two_points:
  "se_y [10, 30] [1 / 2, 7 / 10] (Fin (1 / 100)) (Fin (2 / 5)) = NaN"
  by (simp add: se_y_def dof_def fsum_def fsquare_def fsub_def)

lemma fit_two_points:
  "fit_series lib [10, 30] [1 / 2, 7 / 10] =
     Inr \<lparr>fit_r = Fin 1, fit_p = pearsonr_p lib [10, 30] [1 / 2, 7 / 10],
          fit_slope = Fin (1 / 100), fit_slope_ci = NaN,
          fit_intercept = Fin (2 / 5), fit_intercept_ci = NaN,
          fit_r_squared = Fin 1\<rparr>"
  by (simp add: fit_series_def linregress_two_points pearsonr_two_points ci_two_points
      se_slope_def se_intercept_def fmul_NaN_right Let_def)

lemma dec_digits_numeral:
  "dec_digits (numeral k) q = dec_digits (pred_numeral k) (q div 10) @ [digit_char (q mod 10)]"
proof -
  have "dec_digits (Suc (pred_numeral k)) q =
          dec_digits (pred_numeral k) (q div 10) @ [digit_char (q mod 10)]"
    by (rule dec_digits.simps(2))
  then show ?thesis
    by (simp only: numeral_eq_Suc)
qed

lemmas format_eval = format_finite_def sci_parts_def round_half_even_def digit_char_def
  Let_def dec_digits_numeral

lemma two_point_data:
  "ingest
     [\<lparr>t_case = ''A'', temp_DTI = Some 10, temp_T1 = None, temp_T2 = None, temp_T2s = None\<rparr>,
      \<lparr>t_case = ''B'', temp_DTI = Some 30, temp_T1 = None, temp_T2 = None, temp_T2s = None\<rparr>]
     [\<lparr>case_name = ''A'',
       file_main = Some
         [\<lparr>r_case = Some ''A'', r_metric = Some ''FA'', r_region = Some ''Caudate'', r_value = Fin (1 / 2)\<rparr>],
       file_t1 = None\<rparr>,
      \<lparr>case_name = ''B'',
       file_main = Some
         [\<lparr>r_case = Some ''B'', r_metric = Some ''FA'', r_region = Some ''Caudate'', r_value = Fin (7 / 10)\<rparr>],
       file_t1 = None\<rparr>]
   = Inr
     [\<lparr>r_case = Some ''A'', r_metric = Some ''FA'', r_region = Some ''Caudate'',
       r_value = Fin (1 / 2), temperature = Some 10\<rparr>,
      \<lparr>r_case = Some ''B'', r_metric = Some ''FA'', r_region = Some ''Caudate'',
       r_value = Fin (7 / 10), temperature = Some 30\<rparr>]"
  by (simp add: ingest_eval)

lemma two_point_step:
  "region_step lib
     [\<lparr>r_case = Some ''A'', r_metric = Some ''FA'', r_region = Some ''Caudate'',
       r_value = Fin (1 / 2), temperature = Some 10\<rparr>,
      \<lparr>r_case = Some ''B'', r_metric = Some ''FA'', r_region = Some ''Caudate'',
       r_value = Fin (7 / 10), temperature = Some 30\<rparr>] ''FA'' ''Caudate''
   = Inr (Some
      \<lparr>DGM_Region = ''Caudate'', MRI_Parameter = ''FA'', Pearson_r = ''1.0000e+00'',
       p_value = format_sci (pearsonr_p lib [10, 30] [1 / 2, 7 / 10]) 2,
       Slope_a = ''1.00e-02'' @ plus_minus @ ''nan'',
       Intercept_b = ''4.00e-01'' @ plus_minus @ ''nan'',
       R_square = ''1.0000e+00''\<rparr>)"
  by (simp add: region_step_def series_def skip_series_def nunique_def fit_two_points
      summary_record_def format_eval)

text \<open>
  C7. Two cases at 10 and 30 degrees with FA values 0.5 and 0.7 for the region Caudate:
  the fit has Pearson r equal to 1, slope 0.01 and intercept 0.4 (in exact arithmetic),
  so the line passes through both points. Ingestion yields the two rows, and the
  summary record of the pair (FA, Caudate) holds these numbers; with two points the
  confidence half-widths are \<open>nan\<close>.
\<close>

theorem two_point_example:
  "fit_series lib [10, 30] [1 / 2, 7 / 10] =
     Inr \<lparr>fit_r = Fin 1, fit_p = pearsonr_p lib [10, 30] [1 / 2, 7 / 10],
          fit_slope = Fin (1 / 100), fit_slope_ci = NaN,
          fit_intercept = Fin (2 / 5), fit_intercept_ci = NaN,
          fit_r_squared = Fin 1\<rparr>
   \<and> (1 / 100) * 10 + 2 / 5 = (1 / 2 :: real) \<and> (1 / 100) * 30 + 2 / 5 = (7 / 10 :: real)
   \<and> (case ingest
          [\<lparr>t_case = ''A'', temp_DTI = Some 10, temp_T1 = None, temp_T2 = None, temp_T2s = None\<rparr>,
           \<lparr>t_case = ''B'', temp_DTI = Some 30, temp_T1 = None, temp_T2 = None, temp_T2s = None\<rparr>]
          [\<lparr>case_name = ''A'',
            file_main = Some
              [\<lparr>r_case = Some ''A'', r_metric = Some ''FA'', r_region = Some ''Caudate'', r_value = Fin (1 / 2)\<rparr>],
            file_t1 = None\<rparr>,
           \<lparr>case_name = ''B'',
            file_main = Some
              [\<lparr>r_case = Some ''B'', r_metric = Some ''FA'', r_region = Some ''Caudate'', r_value = Fin (7 / 10)\<rparr>],
            file_t1 = None\<rparr>] of
        Inl e \<Rightarrow> False
      | Inr data \<Rightarrow>
          region_step lib data ''FA'' ''Caudate'' =
            Inr (Some
              \<lparr>DGM_Region = ''Caudate'', MRI_Parameter = ''FA'', Pearson_r = ''1.0000e+00'',
               p_value = format_sci (pearsonr_p lib [10, 30] [1 / 2, 7 / 10]) 2,
               Slope_a = ''1.00e-02'' @ plus_minus @ ''nan'',
               Intercept_b = ''4.00e-01'' @ plus_minus @ ''nan'',
               R_square = ''1.0000e+00''\<rparr>))"
  by (simp add: fit_two_points two_point_data two_point_step)

section \<open>Constant columns\<close>

lemma constant_input_set: "xs \<noteq> [] \<Longrightarrow> constant_input xs \<Longrightarrow> set xs = {hd xs}"
  by (cases xs) (auto simp: constant_input_def list_all_iff)

lemma constant_input_Max_Min:
  assumes "xs \<noteq> []" and "constant_input xs"
  shows "Max (set xs) = Min (set xs)"
  using constant_input_set [OF assms] by simp

section \<open>Confidence half-widths\<close>

lemma foldl_fadd_Fin: "foldl fadd (Fin c) (map Fin rs) = Fin (c + sum_list rs)"
  by (induction rs arbitrary: c) (simp_all add: add.assoc)

lemma fsum_Fin: "fsum (map Fin rs) = Fin (sum_list rs)"
  using foldl_fadd_Fin [of 0 rs] by (simp add: fsum_def)

lemma sum_list_nth: "sum_list (map f xs) = (\<Sum>i<length xs. f (xs ! i))"
proof -
  have "sum_list (map f xs) = (\<Sum>i = 0..<length (map f xs). map f xs ! i)"
    by (rule sum_list_sum_nth)
  also have "\<dots> = (\<Sum>i = 0..<length xs. f (xs ! i))"
    by (rule sum.cong) simp_all
  finally show ?thesis by (simp add: atLeast0LessThan)
qed

lemma sum_list_map2_nth:
  assumes "length ys = length xs"
  shows "sum_list (map2 f xs ys) = (\<Sum>i<length xs. f (xs ! i) (ys ! i))"
proof -
  have "sum_list (map2 f xs ys) = (\<Sum>i = 0..<length (map2 f xs ys). map2 f xs ys ! i)"
    by (rule sum_list_sum_nth)
  also have "\<dots> = (\<Sum>i = 0..<length xs. f (xs ! i) (ys ! i))"
    using assms by (intro sum.cong) simp_all
  finally show ?thesis by (simp add: atLeast0LessThan)
qed

lemma mean_spec: "mean x = spec_mean x"
  using sum_list_nth [of "\<lambda>a. a" x] by (simp add: mean_def spec_mean_def)

lemma s_xx_spec: "s_xx x = Fin (spec_sxx x)"
proof -
  have "map (\<lambda>a. fsquare (fsub (Fin a) (Fin (mean x)))) x =
          map Fin (map (\<lambda>a. (a - spec_mean x)\<^sup>2) x)"
    by (simp add: fsquare_def fsub_def power2_eq_square mean_spec)
  then have "s_xx x = Fin (sum_list (map (\<lambda>a. (a - spec_mean x)\<^sup>2) x))"
    by (simp only: s_xx_def fsum_Fin)
  then show ?thesis
    by (simp only: sum_list_nth spec_sxx_def)
qed

lemma se_y_spec:
  assumes "length y = length x"
  shows "se_y x y (Fin a) (Fin b) = spec_residual_se x y a b"
proof -
  have "map2 (\<lambda>u v. fsquare (fsub (Fin v) (fadd (fmul (Fin a) (Fin u)) (Fin b)))) x y =
          map Fin (map2 (\<lambda>u v. (v - (a * u + b))\<^sup>2) x y)"
    by (auto simp: fsquare_def fsub_def power2_eq_square algebra_simps)
  then have "se_y x y (Fin a) (Fin b) =
      fsqrt (fdiv (Fin (sum_list (map2 (\<lambda>u v. (v - (a * u + b))\<^sup>2) x y)))
                  (Fin (of_int (dof x))))"
    by (simp only: se_y_def fsum_Fin)
  moreover have "(of_int (dof x) :: real) = real (length x) - 2"
    by (simp add: dof_def)
  ultimately show ?thesis
    by (simp only: sum_list_map2_nth [OF assms] spec_residual_se_def)
qed


lemma fit_series_Inr:
  assumes "fit_series lib x y = Inr f"
  shows "\<exists>lr. linregress x y = Inr lr
    \<and> fit_slope f = Fin (lr_slope lr) \<and> fit_intercept f = Fin (lr_intercept lr)
    \<and> fit_slope_ci f = fmul (t_ppf lib (975 / 1000) (dof x))
          (se_slope x y (Fin (lr_slope lr)) (Fin (lr_intercept lr)))
    \<and> fit_intercept_ci f = fmul (t_ppf lib (975 / 1000) (dof x))
          (se_intercept x y (Fin (lr_slope lr)) (Fin (lr_intercept lr)))"
  using assms by (auto simp: fit_series_def Let_def split: sum.splits)

text \<open>
  C1. Whenever the fit of a series returns, its slope and intercept are finite numbers
  and the two confidence half-widths it reports are t-critical(0.975, n - 2) times the
  standard errors of the specification: the residual standard error over \<open>n - 2\<close>
  degrees of freedom, divided by \<open>sqrt (\<Sum>(x - m)\<^sup>2)\<close> for the slope and multiplied by
  \<open>sqrt (1/n + m\<^sup>2 / \<Sum>(x - m)\<^sup>2)\<close> for the intercept. The equality is one of float64
  values in exact arithmetic: for \<open>n = 2\<close> both sides are \<open>nan\<close>.
\<close>

theorem ci_half_widths:
  assumes "fit_series lib x y = Inr f" and "length y = length x"
  shows "isfinite (fit_slope f) \<and> isfinite (fit_intercept f)
    \<and> fit_slope_ci f =
        spec_half_width lib x
          (spec_slope_se x y (fin_of (fit_slope f)) (fin_of (fit_intercept f)))
    \<and> fit_intercept_ci f =
        spec_half_width lib x
          (spec_intercept_se x y (fin_of (fit_slope f)) (fin_of (fit_intercept f)))"
proof -
  obtain lr where lr: "linregress x y = Inr lr"
    and a: "fit_slope f = Fin (lr_slope lr)" and b: "fit_intercept f = Fin (lr_intercept lr)"
    and sci: "fit_slope_ci f = fmul (t_ppf lib (975 / 1000) (dof x))
          (se_slope x y (Fin (lr_slope lr)) (Fin (lr_intercept lr)))"
    and ici: "fit_intercept_ci f = fmul (t_ppf lib (975 / 1000) (dof x))
          (se_intercept x y (Fin (lr_slope lr)) (Fin (lr_intercept lr)))"
    using fit_series_Inr [OF assms(1)] by blast
  have s: "se_slope x y (Fin (lr_slope lr)) (Fin (lr_intercept lr)) =
             spec_slope_se x y (lr_slope lr) (lr_intercept lr)"
    by (simp only: se_slope_def spec_slope_se_def se_y_spec [OF assms(2)] s_xx_spec)
  have sq: "fsquare (Fin (mean x)) = Fin ((spec_mean x)\<^sup>2)"
    by (simp add: fsquare_def power2_eq_square mean_spec)
  have i: "se_intercept x y (Fin (lr_slope lr)) (Fin (lr_intercept lr)) =
             spec_intercept_se x y (lr_slope lr) (lr_intercept lr)"
    by (simp only: se_intercept_def spec_intercept_se_def se_y_spec [OF assms(2)] s_xx_spec sq)
  show ?thesis
    by (simp add: a b sci ici s i spec_half_width_def dof_def)
qed

lemma fit_three_points:
  "fit_series lib [0, 1, 2] [0, 1, 2] =
     Inr \<lparr>fit_r = Fin 1, fit_p = pearsonr_p lib [0, 1, 2] [0, 1, 2],
          fit_slope = Fin 1, fit_slope_ci = fmul (t_ppf lib (975 / 1000) 1) (Fin 0),
          fit_intercept = Fin 0, fit_intercept_ci = fmul (t_ppf lib (975 / 1000) 1) (Fin 0),
          fit_r_squared = Fin 1\<rparr>"
proof -
  have "sqrt (4 / 9) = (2 / 3 :: real)"
    by (rule real_sqrt_unique) (simp_all add: power2_eq_square)
  then have s: "3 * sqrt (4 / 9) = (2 :: real)" by simp
  show ?thesis
    by (simp add: fit_series_def linregress_def pearsonr_r_def constant_input_def mean_def
        clip_def se_slope_def se_intercept_def se_y_def s_xx_def dof_def fsum_def fsquare_def
        fsub_def Let_def s)
qed

theorem ci_half_widths_witness:
  "fit_series \<lparr>pearsonr_p = (\<lambda>x y. Fin 0), t_ppf = (\<lambda>q d. Fin (12706 / 1000))\<rparr>
     [0, 1, 2] [0, 1, 2] =
     Inr \<lparr>fit_r = Fin 1, fit_p = Fin 0, fit_slope = Fin 1, fit_slope_ci = Fin 0,
          fit_intercept = Fin 0, fit_intercept_ci = Fin 0, fit_r_squared = Fin 1\<rparr>
   \<and> length [0, 1, 2 :: real] = length [0, 1, 2 :: real]
   \<and> Fin 0 =
       spec_half_width \<lparr>pearsonr_p = (\<lambda>x y. Fin 0), t_ppf = (\<lambda>q d. Fin (12706 / 1000))\<rparr>
         [0, 1, 2] (spec_slope_se [0, 1, 2] [0, 1, 2] 1 0)
   \<and> Fin 0 =
       spec_half_width \<lparr>pearsonr_p = (\<lambda>x y. Fin 0), t_ppf = (\<lambda>q d. Fin (12706 / 1000))\<rparr>
         [0, 1, 2] (spec_intercept_se [0, 1, 2] [0, 1, 2] 1 0)"
  using ci_half_widths
    [of "\<lparr>pearsonr_p = (\<lambda>x y. Fin 0), t_ppf = (\<lambda>q d. Fin (12706 / 1000))\<rparr>"
        "[0, 1, 2]" "[0, 1, 2]"
        "\<lparr>fit_r = Fin 1, fit_p = Fin 0, fit_slope = Fin 1, fit_slope_ci = Fin 0,
          fit_intercept = Fin 0, fit_intercept_ci = Fin 0, fit_r_squared = Fin 1\<rparr>"]
    fit_three_points [of "\<lparr>pearsonr_p = (\<lambda>x y. Fin 0), t_ppf = (\<lambda>q d. Fin (12706 / 1000))\<rparr>"]
  by simp

section \<open>Series of two points\<close>

lemma sqrt_div_zero_not_finite: "\<not> isfinite (fsqrt (fdiv v (Fin 0)))"
  by (cases v) (simp_all add: inf_sign_def)

lemma fdiv_not_finite: "\<not> isfinite a \<Longrightarrow> \<not> isfinite (fdiv a b)"
  by (cases a; cases b) simp_all

lemma fmul_not_finite_left: "\<not> isfinite a \<Longrightarrow> \<not> isfinite (fmul a b)"
  by (cases a; cases b) (simp_all add: inf_sign_def)

lemma fmul_not_finite_right: "\<not> isfinite b \<Longrightarrow> \<not> isfinite (fmul a b)"
  by (cases a; cases b) (simp_all add: inf_sign_def)

lemma se_y_two_not_finite:
  assumes "length x = 2"
  shows "\<not> isfinite (se_y x y slope intercept)"
proof -
  have "(of_int (dof x) :: real) = 0" using assms by (simp add: dof_def)
  then show ?thesis
    by (simp only: se_y_def sqrt_div_zero_not_finite not_False_eq_True)
qed

lemma linregress_returns:
  assumes "\<not> (Max (set x) = Min (set x) \<and> 1 < length x)"
  shows "\<exists>lr. linregress x y = Inr lr"
  using assms by (simp add: linregress_def Let_def)

lemma fit_series_returns:
  assumes "\<not> (Max (set x) = Min (set x) \<and> 1 < length x)"
  shows "\<exists>f. fit_series lib x y = Inr f"
proof -
  obtain lr where "linregress x y = Inr lr"
    using linregress_returns [OF assms] by blast
  then show ?thesis by (simp add: fit_series_def Let_def)
qed

lemma half_widths_two_not_finite:
  assumes "fit_series lib x y = Inr f" and "length x = 2"
  shows "\<not> isfinite (fit_slope_ci f) \<and> \<not> isfinite (fit_intercept_ci f)
    \<and> (t_ppf lib (975 / 1000) 0 = NaN \<longrightarrow> fit_slope_ci f = NaN \<and> fit_intercept_ci f = NaN)"
proof -
  obtain lr where lr: "linregress x y = Inr lr"
    and sci: "fit_slope_ci f = fmul (t_ppf lib (975 / 1000) (dof x))
          (se_slope x y (Fin (lr_slope lr)) (Fin (lr_intercept lr)))"
    and ici: "fit_intercept_ci f = fmul (t_ppf lib (975 / 1000) (dof x))
          (se_intercept x y (Fin (lr_slope lr)) (Fin (lr_intercept lr)))"
    using fit_series_Inr [OF assms(1)] by blast
  have d: "dof x = 0" using assms(2) by (simp add: dof_def)
  have se: "\<not> isfinite (se_y x y (Fin (lr_slope lr)) (Fin (lr_intercept lr)))"
    using assms(2) by (rule se_y_two_not_finite)
  have "\<not> isfinite (se_slope x y (Fin (lr_slope lr)) (Fin (lr_intercept lr)))"
    unfolding se_slope_def using se by (rule fdiv_not_finite)
  then have a: "\<not> isfinite (fit_slope_ci f)"
    unfolding sci by (rule fmul_not_finite_right)
  have "\<not> isfinite (se_intercept x y (Fin (lr_slope lr)) (Fin (lr_intercept lr)))"
    unfolding se_intercept_def using se by (rule fmul_not_finite_left)
  then have b: "\<not> isfinite (fit_intercept_ci f)"
    unfolding ici by (rule fmul_not_finite_right)
  have c: "t_ppf lib (975 / 1000) 0 = NaN \<longrightarrow> fit_slope_ci f = NaN \<and> fit_intercept_ci f = NaN"
    by (simp add: sci ici d)
  from a b c show ?thesis by blast
qed

text \<open>
  C10, as the code has it. For a series of exactly two points with two distinct
  temperatures and two distinct values, the degrees of freedom are \<open>0\<close>, so the
  residual standard error is the square root of a division by zero: whatever the sum of
  the squared residuals is, the result is not a finite number (\<open>nan\<close> for a sum of
  \<open>0\<close>, \<open>inf\<close> for a positive sum). Both confidence half-widths are then not finite
  numbers either, and they are \<open>nan\<close> when \<^verbatim>\<open>t.ppf(0.975, 0)\<close> is \<open>nan\<close>. The summary
  record of the series is appended all the same.
\<close>

theorem two_points_half_widths_not_finite:
  assumes "series data metric region = [p, q]"
    and "temperature p = Some x1" and "temperature q = Some x2" and "x1 \<noteq> x2"
    and "r_value p = Fin y1" and "r_value q = Fin y2" and "y1 \<noteq> y2"
  shows "dof [x1, x2] = 0
    \<and> (\<forall>v. \<not> isfinite (fsqrt (fdiv v (Fin (of_int (dof [x1, x2]))))))
    \<and> (\<forall>slope intercept. \<not> isfinite (se_y [x1, x2] [y1, y2] slope intercept))
    \<and> (\<exists>f. fit_series lib [x1, x2] [y1, y2] = Inr f
          \<and> \<not> isfinite (fit_slope_ci f) \<and> \<not> isfinite (fit_intercept_ci f)
          \<and> (t_ppf lib (975 / 1000) 0 = NaN \<longrightarrow>
                fit_slope_ci f = NaN \<and> fit_intercept_ci f = NaN)
          \<and> region_step lib data metric region = Inr (Some (summary_record region metric f)))"
proof -
  have d: "dof [x1, x2] = 0" by (simp add: dof_def)
  have v: "\<forall>v. \<not> isfinite (fsqrt (fdiv v (Fin (of_int (dof [x1, x2])))))"
    by (simp only: d of_int_0 sqrt_div_zero_not_finite not_False_eq_True simp_thms)
  have se: "\<forall>slope intercept. \<not> isfinite (se_y [x1, x2] [y1, y2] slope intercept)"
    by (simp add: se_y_two_not_finite)
  have "\<not> (Max (set [x1, x2]) = Min (set [x1, x2]) \<and> 1 < length [x1, x2])"
    using assms(4) by (auto simp: max_def min_def)
  then obtain f where f: "fit_series lib [x1, x2] [y1, y2] = Inr f"
    using fit_series_returns by blast
  have ci: "\<not> isfinite (fit_slope_ci f) \<and> \<not> isfinite (fit_intercept_ci f)
    \<and> (t_ppf lib (975 / 1000) 0 = NaN \<longrightarrow> fit_slope_ci f = NaN \<and> fit_intercept_ci f = NaN)"
    using f by (rule half_widths_two_not_finite) simp
  have valid: "\<not> skip_series [Some x1, Some x2] [Fin y1, Fin y2]"
    using assms(7) by (simp add: skip_series_def nunique_def)
  have "region_step lib data metric region = Inr (Some (summary_record region metric f))"
    using assms(1,2,3,5,6) valid f by (simp add: region_step_def)
  with d v se f ci show ?thesis by blast
qed

theorem two_points_half_widths_not_finite_witness:
  "dof [10, 30] = 0
   \<and> (\<exists>f. fit_series \<lparr>pearsonr_p = (\<lambda>x y. Fin 1), t_ppf = (\<lambda>q d. NaN)\<rparr> [10, 30] [1 / 2, 7 / 10] = Inr f
        \<and> \<not> isfinite (fit_slope_ci f) \<and> \<not> isfinite (fit_intercept_ci f)
        \<and> fit_slope_ci f = NaN \<and> fit_intercept_ci f = NaN
        \<and> region_step \<lparr>pearsonr_p = (\<lambda>x y. Fin 1), t_ppf = (\<lambda>q d. NaN)\<rparr>
             [\<lparr>r_case = Some ''A'', r_metric = Some ''FA'', r_region = Some ''Caudate'',
               r_value = Fin (1 / 2), temperature = Some 10\<rparr>,
              \<lparr>r_case = Some ''B'', r_metric = Some ''FA'', r_region = Some ''Caudate'',
               r_value = Fin (7 / 10), temperature = Some 30\<rparr>] ''FA'' ''Caudate''
            = Inr (Some (summary_record ''Caudate'' ''FA'' f)))"
  using two_points_half_widths_not_finite
    [of "[\<lparr>r_case = Some ''A'', r_metric = Some ''FA'', r_region = Some ''Caudate'',
               r_value = Fin (1 / 2), temperature = Some 10\<rparr>,
              \<lparr>r_case = Some ''B'', r_metric = Some ''FA'', r_region = Some ''Caudate'',
               r_value = Fin (7 / 10), temperature = Some 30\<rparr>]"
        "''FA''" "''Caudate''"
        "\<lparr>r_case = Some ''A'', r_metric = Some ''FA'', r_region = Some ''Caudate'',
               r_value = Fin (1 / 2), temperature = Some 10\<rparr>"
        "\<lparr>r_case = Some ''B'', r_metric = Some ''FA'', r_region = Some ''Caudate'',
               r_value = Fin (7 / 10), temperature = Some 30\<rparr>"
        10 30 "1 / 2" "7 / 10"
        "\<lparr>pearsonr_p = (\<lambda>x y. Fin 1), t_ppf = (\<lambda>q d. NaN)\<rparr>"]
  by (auto simp: series_def dof_def)

text \<open>
  The claim as written fails for two points measured at the same temperature: the
  series passes the validity check, \<^verbatim>\<open>linregress\<close> raises, and no record is appended.
\<close>

theorem two_points_same_temperature_counterexample:
  "length (series
     [\<lparr>r_case = Some ''A'', r_metric = Some ''FA'', r_region = Some ''Caudate'',
       r_value = Fin (1 / 2), temperature = Some 20\<rparr>,
      \<lparr>r_case = Some ''B'', r_metric = Some ''FA'', r_region = Some ''Caudate'',
       r_value = Fin (7 / 10), temperature = Some 20\<rparr>] ''FA'' ''Caudate'') = 2
   \<and> \<not> skip_series [Some 20, Some 20] [Fin (1 / 2), Fin (7 / 10)]
   \<and> region_step \<lparr>pearsonr_p = (\<lambda>x y. Fin 0), t_ppf = (\<lambda>q d. NaN)\<rparr>
     [\<lparr>r_case = Some ''A'', r_metric = Some ''FA'', r_region = Some ''Caudate'',
       r_value = Fin (1 / 2), temperature = Some 20\<rparr>,
      \<lparr>r_case = Some ''B'', r_metric = Some ''FA'', r_region = Some ''Caudate'',
       r_value = Fin (7 / 10), temperature = Some 20\<rparr>] ''FA'' ''Caudate''
     = Inl IdenticalX"
  by (simp add: series_def skip_series_def nunique_def region_step_def fit_series_def
      linregress_def)

section \<open>Series of equal temperatures\<close>

lemma skip_series_nunique: "nunique ys < 2 \<Longrightarrow> skip_series xs ys"
  by (simp add: skip_series_def)

lemma skip_series_temperatures:
  "skip_series (map Some x') ys = skip_series (map Some x) ys"
  by (simp add: skip_series_def list_ex_iff)

lemma valid_present_temperatures:
  assumes "list_all isfinite ys" and "2 \<le> nunique ys"
  shows "\<not> skip_series (map Some x) ys"
proof -
  have "\<not> isnull v" if "isfinite v" for v using that by (cases v) simp_all
  then have "\<not> list_ex isnull ys"
    using assms(1) by (auto simp: list_all_iff list_ex_iff)
  then show ?thesis
    using assms by (simp add: skip_series_def list_ex_iff)
qed

lemma fit_series_identical_x:
  assumes "constant_input x" and "2 \<le> length x"
  shows "fit_series lib x y = Inl IdenticalX"
proof -
  have "x \<noteq> []" using assms(2) by auto
  then have "Max (set x) = Min (set x)" using assms(1) by (rule constant_input_Max_Min)
  then have "linregress x y = Inl IdenticalX"
    using assms(2) by (simp add: linregress_def)
  then show ?thesis by (simp add: fit_series_def Let_def)
qed

lemma regions_loop_raises:
  assumes "region \<in> set regions" and "region_step lib data metric region = Inl e"
  shows "\<exists>e'. regions_loop lib data metric regions st = Inl e'"
  using assms(1)
proof (induction regions arbitrary: st)
  case Nil
  then show ?case by simp
next
  case (Cons g regions)
  obtain summary added where st: "st = (summary, added)" by (cases st)
  show ?case
  proof (cases "region_step lib data metric g")
    case (Inl e')
    with st show ?thesis by simp
  next
    case (Inr res)
    with assms(2) have "g \<noteq> region" by auto
    with Cons.prems have mem: "region \<in> set regions" by simp
    show ?thesis
    proof (cases res)
      case None
      with Inr st Cons.IH [OF mem] show ?thesis by simp
    next
      case (Some rec)
      with Inr st Cons.IH [OF mem] show ?thesis by simp
    qed
  qed
qed

lemma groups_loop_raises:
  assumes "(metric, group_name, regions) \<in> set pairs" and "region \<in> set regions"
    and "region_step lib data metric region = Inl e"
  shows "fst (groups_loop lib data pairs summary written) \<noteq> None"
  using assms(1)
proof (induction pairs arbitrary: summary written)
  case Nil
  then show ?case by simp
next
  case (Cons pair pairs)
  obtain m g rs where pair: "pair = (m, g, rs)" by (cases pair)
  show ?case
  proof (cases "regions_loop lib data m rs (summary, 0)")
    case (Inl e')
    with pair show ?thesis by simp
  next
    case (Inr res)
    obtain summary' added where res: "res = (summary', added)" by (cases res)
    have "pair \<noteq> (metric, group_name, regions)"
    proof
      assume "pair = (metric, group_name, regions)"
      with pair have "m = metric" "rs = regions" by simp_all
      with regions_loop_raises [OF assms(2,3), of "(summary, 0)"] Inr show False by simp
    qed
    with Cons.prems have "(metric, group_name, regions) \<in> set pairs" by simp
    with Cons.IH Inr pair res show ?thesis by simp
  qed
qed

lemma run_raises:
  assumes "ingest temp_df case_folders = Inr data" and "metric \<in> set metrics"
    and "(group_name, regions) \<in> set structure_groups" and "region \<in> set regions"
    and "region_step lib data metric region = Inl e"
  shows "fst (run lib temp_df case_folders) = Some IdenticalX"
proof -
  let ?res = "groups_loop lib data (List.product metrics structure_groups) [] []"
  have "(metric, group_name, regions) \<in> set (List.product metrics structure_groups)"
    using assms(2,3) by simp
  then have "fst ?res \<noteq> None"
    using assms(4,5) by (rule groups_loop_raises)
  moreover have "fst ?res \<noteq> Some NoValidData" by (rule groups_loop_error)
  ultimately have "fst ?res = Some IdenticalX"
    by (cases "fst ?res") (auto intro: error.exhaust)
  then show ?thesis by (simp add: run_def assms(1))
qed

text \<open>
  C9, as the code has it. The validity check of line 157 rejects a series with fewer
  than two distinct y-values and puts no condition on the values of the temperatures.
  A series of at least two points with equal temperatures and two distinct finite
  values therefore passes it. Its fit is undefined: \<^verbatim>\<open>linregress\<close> raises for
  identical x values, the loop body ends with that exception before the standard errors
  are computed, and the exception ends the run.
\<close>

theorem constant_temperature_series:
  assumes "map temperature (series data metric region) = map Some x"
    and "constant_input x" and "2 \<le> length x"
    and "list_all isfinite (map r_value (series data metric region))"
    and "2 \<le> nunique (map r_value (series data metric region))"
  shows "(\<forall>xs ys. nunique ys < 2 \<longrightarrow> skip_series xs ys)
    \<and> (\<forall>x' ys. skip_series (map Some x') ys = skip_series (map Some x) ys)
    \<and> \<not> skip_series (map temperature (series data metric region))
          (map r_value (series data metric region))
    \<and> region_step lib data metric region = Inl IdenticalX
    \<and> (ingest temp_df case_folders = Inr data \<and> metric \<in> set metrics
         \<and> (group_name, regions) \<in> set structure_groups \<and> region \<in> set regions
         \<longrightarrow> fst (run lib temp_df case_folders) = Some IdenticalX)"
proof -
  let ?df = "series data metric region"
  have a: "\<forall>xs ys. nunique ys < 2 \<longrightarrow> skip_series xs ys"
    by (simp add: skip_series_nunique)
  have b: "\<forall>x' ys. skip_series (map Some x') ys = skip_series (map Some x) ys"
    using skip_series_temperatures by blast
  have c: "\<not> skip_series (map temperature ?df) (map r_value ?df)"
    unfolding assms(1) using assms(4,5) by (rule valid_present_temperatures)
  have "length (map temperature ?df) = length x"
    by (simp only: assms(1) length_map)
  then have len: "\<not> length ?df < 2" using assms(3) by simp
  have "map the (map temperature ?df) = x"
    by (simp only: assms(1)) (simp add: comp_def)
  moreover have "fit_series lib x (map fin_of (map r_value ?df)) = Inl IdenticalX"
    using assms(2,3) by (rule fit_series_identical_x)
  ultimately have d: "region_step lib data metric region = Inl IdenticalX"
    using len c by (simp add: region_step_def Let_def)
  have e: "ingest temp_df case_folders = Inr data \<and> metric \<in> set metrics
         \<and> (group_name, regions) \<in> set structure_groups \<and> region \<in> set regions
         \<longrightarrow> fst (run lib temp_df case_folders) = Some IdenticalX"
    using d run_raises by blast
  from a b c d e show ?thesis by blast
qed

lemma equal_temperature_data:
  "ingest
     [\<lparr>t_case = ''A'', temp_DTI = None, temp_T1 = None, temp_T2 = Some 20, temp_T2s = None\<rparr>,
      \<lparr>t_case = ''B'', temp_DTI = None, temp_T1 = None, temp_T2 = Some 20, temp_T2s = None\<rparr>,
      \<lparr>t_case = ''C'', temp_DTI = None, temp_T1 = None, temp_T2 = Some 20, temp_T2s = None\<rparr>]
     [\<lparr>case_name = ''A'',
       file_main = Some
         [\<lparr>r_case = Some ''A'', r_metric = Some ''T2'', r_region = Some ''Thalamus'', r_value = Fin 1\<rparr>],
       file_t1 = None\<rparr>,
      \<lparr>case_name = ''B'',
       file_main = Some
         [\<lparr>r_case = Some ''B'', r_metric = Some ''T2'', r_region = Some ''Thalamus'', r_value = Fin 2\<rparr>],
       file_t1 = None\<rparr>,
      \<lparr>case_name = ''C'',
       file_main = Some
         [\<lparr>r_case = Some ''C'', r_metric = Some ''T2'', r_region = Some ''Thalamus'', r_value = Fin 3\<rparr>],
       file_t1 = None\<rparr>]
   = Inr
     [\<lparr>r_case = Some ''A'', r_metric = Some ''T2'', r_region = Some ''Thalamus'',
       r_value = Fin 1, temperature = Some 20\<rparr>,
      \<lparr>r_case = Some ''B'', r_metric = Some ''T2'', r_region = Some ''Thalamus'',
       r_value = Fin 2, temperature = Some 20\<rparr>,
      \<lparr>r_case = Some ''C'', r_metric = Some ''T2'', r_region = Some ''Thalamus'',
       r_value = Fin 3, temperature = Some 20\<rparr>]"
  by (simp add: ingest_eval)

theorem constant_temperature_series_witness:
  "fst (run \<lparr>pearsonr_p = (\<lambda>x y. Fin 1), t_ppf = (\<lambda>q d. NaN)\<rparr>
     [\<lparr>t_case = ''A'', temp_DTI = None, temp_T1 = None, temp_T2 = Some 20, temp_T2s = None\<rparr>,
      \<lparr>t_case = ''B'', temp_DTI = None, temp_T1 = None, temp_T2 = Some 20, temp_T2s = None\<rparr>,
      \<lparr>t_case = ''C'', temp_DTI = None, temp_T1 = None, temp_T2 = Some 20, temp_T2s = None\<rparr>]
     [\<lparr>case_name = ''A'',
       file_main = Some
         [\<lparr>r_case = Some ''A'', r_metric = Some ''T2'', r_region = Some ''Thalamus'', r_value = Fin 1\<rparr>],
       file_t1 = None\<rparr>,
      \<lparr>case_name = ''B'',
       file_main = Some
         [\<lparr>r_case = Some ''B'', r_metric = Some ''T2'', r_region = Some ''Thalamus'', r_value = Fin 2\<rparr>],
       file_t1 = None\<rparr>,
      \<lparr>case_name = ''C'',
       file_main = Some
         [\<lparr>r_case = Some ''C'', r_metric = Some ''T2'', r_region = Some ''Thalamus'', r_value = Fin 3\<rparr>],
       file_t1 = None\<rparr>]) = Some IdenticalX"
  using constant_temperature_series
    [where data = "[\<lparr>r_case = Some ''A'', r_metric = Some ''T2'', r_region = Some ''Thalamus'',
       r_value = Fin 1, temperature = Some 20\<rparr>,
      \<lparr>r_case = Some ''B'', r_metric = Some ''T2'', r_region = Some ''Thalamus'',
       r_value = Fin 2, temperature = Some 20\<rparr>,
      \<lparr>r_case = Some ''C'', r_metric = Some ''T2'', r_region = Some ''Thalamus'',
       r_value = Fin 3, temperature = Some 20\<rparr>]"
      and metric = "''T2''" and region = "''Thalamus''" and x = "[20, 20, 20]"
      and temp_df = "[\<lparr>t_case = ''A'', temp_DTI = None, temp_T1 = None, temp_T2 = Some 20, temp_T2s = None\<rparr>,
      \<lparr>t_case = ''B'', temp_DTI = None, temp_T1 = None, temp_T2 = Some 20, temp_T2s = None\<rparr>,
      \<lparr>t_case = ''C'', temp_DTI = None, temp_T1 = None, temp_T2 = Some 20, temp_T2s = None\<rparr>]"
      and case_folders = "[\<lparr>case_name = ''A'',
       file_main = Some
         [\<lparr>r_case = Some ''A'', r_metric = Some ''T2'', r_region = Some ''Thalamus'', r_value = Fin 1\<rparr>],
       file_t1 = None\<rparr>,
      \<lparr>case_name = ''B'',
       file_main = Some
         [\<lparr>r_case = Some ''B'', r_metric = Some ''T2'', r_region = Some ''Thalamus'', r_value = Fin 2\<rparr>],
       file_t1 = None\<rparr>,
      \<lparr>case_name = ''C'',
       file_main = Some
         [\<lparr>r_case = Some ''C'', r_metric = Some ''T2'', r_region = Some ''Thalamus'', r_value = Fin 3\<rparr>],
       file_t1 = None\<rparr>]"
      and group_name = "''Relay Centers''" and regions = "[''Thalamus'', ''Brainstem'']"
      and lib = "\<lparr>pearsonr_p = (\<lambda>x y. Fin 1), t_ppf = (\<lambda>q d. NaN)\<rparr>"]
    equal_temperature_data
  by (simp add: series_def constant_input_def nunique_def metrics_def structure_groups_def)

text \<open>
  The claim as written, that the standard error is computed by a division by zero,
  fails: for three points at 20 degrees the series passes the validity check and the
  loop body ends with the exception of \<^verbatim>\<open>linregress\<close>, before line 170.
\<close>

theorem constant_temperature_counterexample:
  "\<not> skip_series [Some 20, Some 20, Some 20] [Fin 1, Fin 2, Fin 3]
   \<and> region_step \<lparr>pearsonr_p = (\<lambda>x y. Fin 0), t_ppf = (\<lambda>q d. NaN)\<rparr>
     [\<lparr>r_case = Some ''A'', r_metric = Some ''T2'', r_region = Some ''Thalamus'',
       r_value = Fin 1, temperature = Some 20\<rparr>,
      \<lparr>r_case = Some ''B'', r_metric = Some ''T2'', r_region = Some ''Thalamus'',
       r_value = Fin 2, temperature = Some 20\<rparr>,
      \<lparr>r_case = Some ''C'', r_metric = Some ''T2'', r_region = Some ''Thalamus'',
       r_value = Fin 3, temperature = Some 20\<rparr>] ''T2'' ''Thalamus''
     = Inl IdenticalX"
  by (simp add: series_def skip_series_def nunique_def region_step_def fit_series_def
      linregress_def)

section \<open>Digits of the formatted numbers\<close>























end
